theory Spec2Isabelle
  imports Complex_Main
begin

section \<open>JavaScript numbers\<close>

text \<open>
  The application computes with JavaScript numbers. A finite number is modelled by the
  rational it denotes. In \<open>analyzeSolar\<close> the operations \<open>*\<close>, \<open>/\<close>, \<open>+\<close> and \<open>-\<close> on
  finite operands are taken exact; the only place there where a non-finite value can
  arise is the division that computes \<open>paybackPeriod\<close>, whose result is a \<open>jsnum\<close>.
  \<open>parseFloat\<close> rounds the decimal it reads to the nearest double (\<open>to_double\<close> below).
  The sign of zero is not represented.
\<close>

datatype jsnum = Num rat | Infinity | NegInfinity | NaN

text \<open>\<open>Math.round\<close> on a finite number: the nearest integer, halves towards \<open>+\<infinity>\<close>.\<close>

definition Math_round :: "rat \<Rightarrow> int" where
  "Math_round x = \<lfloor>x + 1 / 2\<rfloor>"

text \<open>\<open>x / y\<close> for finite \<open>x\<close> and \<open>y\<close>: a zero divisor gives \<open>NaN\<close> or an infinity.\<close>

definition js_div :: "rat \<Rightarrow> rat \<Rightarrow> jsnum" where
  "js_div x y =
     (if y \<noteq> 0 then Num (x / y)
      else if x = 0 then NaN
      else if 0 < x then Infinity
      else NegInfinity)"

text \<open>\<open>v * c\<close>, \<open>Math.round(v)\<close> and \<open>v / c\<close> for a possibly non-finite \<open>v\<close> and finite \<open>c\<close>.\<close>

fun js_times :: "jsnum \<Rightarrow> rat \<Rightarrow> jsnum" where
  "js_times (Num a) c = Num (a * c)"
| "js_times Infinity c = (if 0 < c then Infinity else if c < 0 then NegInfinity else NaN)"
| "js_times NegInfinity c = (if 0 < c then NegInfinity else if c < 0 then Infinity else NaN)"
| "js_times NaN c = NaN"

fun js_round :: "jsnum \<Rightarrow> jsnum" where
  "js_round (Num a) = Num (of_int (Math_round a))"
| "js_round Infinity = Infinity"
| "js_round NegInfinity = NegInfinity"
| "js_round NaN = NaN"

fun js_over :: "jsnum \<Rightarrow> rat \<Rightarrow> jsnum" where
  "js_over (Num a) c = js_div a c"
| "js_over Infinity c = (if 0 \<le> c then Infinity else NegInfinity)"
| "js_over NegInfinity c = (if 0 \<le> c then NegInfinity else Infinity)"
| "js_over NaN c = NaN"

fun is_finite :: "jsnum \<Rightarrow> bool" where
  "is_finite (Num a) = True"
| "is_finite v = False"

text \<open>\<open>isNaN(v)\<close>, and \<open>v <= c\<close> and \<open>v >= c\<close> for a finite \<open>c\<close>; a comparison with \<open>NaN\<close> is false.\<close>

fun isNaN :: "jsnum \<Rightarrow> bool" where
  "isNaN NaN = True"
| "isNaN v = False"

fun js_le :: "jsnum \<Rightarrow> rat \<Rightarrow> bool" where
  "js_le (Num a) c = (a \<le> c)"
| "js_le Infinity c = False"
| "js_le NegInfinity c = True"
| "js_le NaN c = False"

fun js_ge :: "jsnum \<Rightarrow> rat \<Rightarrow> bool" where
  "js_ge (Num a) c = (c \<le> a)"
| "js_ge Infinity c = True"
| "js_ge NegInfinity c = False"
| "js_ge NaN c = False"


section \<open>Rounding a rational to a double\<close>

text \<open>
  The Number value of a rational \<open>x\<close>: the nearest binary64 value, ties to the even
  significand, infinite from \<open>2 ^ 1024\<close> on. \<open>flog2 a\<close> is the exponent \<open>e\<close> with
  \<open>2 ^ e \<le> a < 2 ^ (e + 1)\<close>; the spacing of the doubles around \<open>a\<close> is \<open>pow2 (e - 52)\<close>,
  and \<open>pow2 (- 1074)\<close> in the subnormal range.
\<close>

definition pow2 :: "int \<Rightarrow> rat" where
  "pow2 q = (if 0 \<le> q then 2 ^ nat q else 1 / 2 ^ nat (- q))"

definition round_half_even :: "rat \<Rightarrow> int" where
  "round_half_even y =
     (let f = \<lfloor>y\<rfloor>; d = y - of_int f
      in if d < 1 / 2 then f
         else if 1 / 2 < d then f + 1
         else if even f then f else f + 1)"

function flog2 :: "rat \<Rightarrow> int" where
  "flog2 x =
     (if x \<le> 0 then 0
      else if 2 \<le> x then flog2 (x / 2) + 1
      else if x < 1 then flog2 (x * 2) - 1
      else 0)"
  by pat_completeness auto
termination
proof (relation "measure (\<lambda>x. if 1 \<le> x then nat \<lfloor>x\<rfloor> else nat \<lceil>1 / x\<rceil>)")
  show "wf (measure (\<lambda>x::rat. if 1 \<le> x then nat \<lfloor>x\<rfloor> else nat \<lceil>1 / x\<rceil>))"
    by simp
next
  fix x :: rat
  assume "\<not> x \<le> 0" and x: "2 \<le> x"
  have "\<lfloor>x / 2\<rfloor> \<le> \<lfloor>x - 1\<rfloor>" using x by (intro floor_mono) simp
  moreover have "\<lfloor>x - 1\<rfloor> = \<lfloor>x\<rfloor> - 1" by simp
  moreover have "2 \<le> \<lfloor>x\<rfloor>" using x by (simp add: le_floor_iff)
  ultimately have "\<lfloor>x / 2\<rfloor> < \<lfloor>x\<rfloor>" and "0 < \<lfloor>x\<rfloor>" by linarith+
  then show "(x / 2, x) \<in> measure (\<lambda>x. if 1 \<le> x then nat \<lfloor>x\<rfloor> else nat \<lceil>1 / x\<rceil>)"
    using x by simp
next
  fix x :: rat
  assume pos: "\<not> x \<le> 0" and "\<not> 2 \<le> x" and x: "x < 1"
  have ix: "1 < 1 / x" using pos x by (simp add: field_simps)
  then have c2: "2 \<le> \<lceil>1 / x\<rceil>" by (simp add: le_ceiling_iff)
  show "(x * 2, x) \<in> measure (\<lambda>x. if 1 \<le> x then nat \<lfloor>x\<rfloor> else nat \<lceil>1 / x\<rceil>)"
  proof (cases "1 \<le> x * 2")
    case True
    have "\<lfloor>x * 2\<rfloor> < 2" using x by (simp add: floor_less_iff)
    then have "\<lfloor>x * 2\<rfloor> < \<lceil>1 / x\<rceil>" using c2 by linarith
    then show ?thesis using True x pos by simp
  next
    case False
    then have "2 < 1 / x" using pos by (simp add: field_simps)
    then have "1 / (x * 2) \<le> 1 / x - 1" by (simp add: field_simps)
    then have "\<lceil>1 / (x * 2)\<rceil> \<le> \<lceil>1 / x - 1\<rceil>" by (rule ceiling_mono)
    moreover have "\<lceil>1 / x - 1\<rceil> = \<lceil>1 / x\<rceil> - 1" by simp
    ultimately have "\<lceil>1 / (x * 2)\<rceil> < \<lceil>1 / x\<rceil>" by linarith
    then show ?thesis using False x pos by simp
  qed
qed

declare flog2.simps [simp del]

text \<open>
  \<open>quantum a\<close> is the exponent of that spacing and \<open>round_to_quantum a\<close> the multiple of
  it nearest to \<open>a\<close>, for \<open>a > 0\<close>.
\<close>

definition quantum :: "rat \<Rightarrow> int" where
  "quantum a = max (flog2 a - 52) (- 1074)"

definition round_to_quantum :: "rat \<Rightarrow> rat" where
  "round_to_quantum a = of_int (round_half_even (a / pow2 (quantum a))) * pow2 (quantum a)"

definition to_double :: "rat \<Rightarrow> jsnum" where
  "to_double x =
     (if x = 0 then Num 0
      else if 2 ^ 1024 \<le> round_to_quantum \<bar>x\<bar>
      then (if 0 < x then Infinity else NegInfinity)
      else Num (if 0 < x then round_to_quantum \<bar>x\<bar> else - round_to_quantum \<bar>x\<bar>))"


section \<open>The solar estimate of \<open>analyzeSolar\<close>\<close>

text \<open>The state variable \<open>solarSettings\<close>, with its initial value.\<close>

record solar_settings =
  panelEfficiency :: rat
  systemLosses :: rat
  electricityRate :: rat

definition default_settings :: solar_settings where
  "default_settings =
     \<lparr>panelEfficiency = 20, systemLosses = 14, electricityRate = 12 / 100\<rparr>"

text \<open>The object \<open>mockData\<close> that \<open>analyzeSolar\<close> builds.\<close>

record mock_data =
  roofArea :: int
  usableArea :: int
  annualSolarIrradiance :: int
  systemSize :: int
  annualProduction :: int
  co2Savings :: int
  monthlySavings :: int
  paybackPeriod :: jsnum

text \<open>
  Lines 92 to 107 of \<open>main.jsx\<close>. The two extra arguments are the values returned by the
  two calls of \<open>Math.random()\<close>, in evaluation order: \<open>r1\<close> for \<open>roofArea\<close> and \<open>r2\<close> for
  \<open>annualSolarIrradiance\<close>.
\<close>

definition solar_metrics :: "solar_settings \<Rightarrow> rat \<Rightarrow> rat \<Rightarrow> mock_data" where
  "solar_metrics s r1 r2 =
     (let roofArea = Math_round (120 + r1 * 80);
          usableArea = Math_round (of_int roofArea * (8 / 10));
          systemSize = Math_round (of_int usableArea * panelEfficiency s / 100);
          annualProduction =
            Math_round (of_int systemSize * 1300 * (1 - systemLosses s / 100));
          monthlySavings =
            Math_round (of_int annualProduction * electricityRate s / 12)
      in \<lparr>roofArea = roofArea,
          usableArea = usableArea,
          annualSolarIrradiance = 1500 + Math_round (r2 * 300),
          systemSize = systemSize,
          annualProduction = annualProduction,
          co2Savings = Math_round (of_int annualProduction * (4 / 10)),
          monthlySavings = monthlySavings,
          paybackPeriod =
            js_over
              (js_round
                 (js_times
                    (js_div (of_int systemSize * 2500) (of_int monthlySavings * 12)) 10))
              10\<rparr>)"


section \<open>Strings: whitespace, the coordinate pattern, \<open>parseFloat\<close>\<close>

text \<open>
  A string is a list of 8-bit characters. The white space of \<open>trim\<close> and of \<open>\s\<close> is, in
  that range, tab, line feed, vertical tab, form feed, carriage return, space and the
  no-break space.
\<close>

definition is_space :: "char \<Rightarrow> bool" where
  "is_space c = (of_char c \<in> {9, 10, 11, 12, 13, 32, 160 :: nat})"

definition is_digit :: "char \<Rightarrow> bool" where
  "is_digit c = (48 \<le> (of_char c :: nat) \<and> (of_char c :: nat) \<le> 57)"

definition trim :: "string \<Rightarrow> string" where
  "trim s = rev (dropWhile is_space (rev (dropWhile is_space s)))"

text \<open>
  \<open>scan_decimal\<close> matches \<open>-?\d+(\.\d+)?\<close> at the start of a string, greedily as the
  regular-expression engine does, and returns the matched text and the rest. When the
  dot is not followed by a digit the optional group matches nothing.
\<close>

definition scan_decimal :: "string \<Rightarrow> (string \<times> string) option" where
  "scan_decimal s =
     (let (sg, s1) = (case s of c # t \<Rightarrow> if c = CHR ''-'' then ([c], t) else ([], s)
                               | [] \<Rightarrow> ([], s));
          ip = takeWhile is_digit s1;
          s2 = dropWhile is_digit s1
      in if ip = [] then None
         else (case s2 of
                 c # t \<Rightarrow>
                   if c = CHR ''.'' \<and> takeWhile is_digit t \<noteq> []
                   then Some (sg @ ip @ c # takeWhile is_digit t, dropWhile is_digit t)
                   else Some (sg @ ip, s2)
               | [] \<Rightarrow> Some (sg @ ip, s2)))"

text \<open>
  \<open>searchQuery.match(/^(-?\d+(\.\d+)?),\s*(-?\d+(\.\d+)?)$/)\<close>: the texts of groups 1
  and 3 when the whole string matches, \<open>None\<close> for \<open>null\<close>.
\<close>

definition coordsMatch :: "string \<Rightarrow> (string \<times> string) option" where
  "coordsMatch q =
     (case scan_decimal q of
        None \<Rightarrow> None
      | Some (g1, r) \<Rightarrow>
          (case r of
             [] \<Rightarrow> None
           | c # r' \<Rightarrow>
               if c \<noteq> CHR '','' then None
               else (case scan_decimal (dropWhile is_space r') of
                       None \<Rightarrow> None
                     | Some (g3, rest) \<Rightarrow> if rest = [] then Some (g1, g3) else None)))"

text \<open>
  \<open>parseFloat\<close> on an optional minus sign, digits and an optional fraction:
  \<open>parse_unsigned\<close> gives the exact value of the decimal, which \<open>parseFloat\<close> rounds to a
  double; the result is \<open>NaN\<close> when the string does not start with a number.
  (Exponents, a leading \<open>+\<close>, leading white space and a bare fraction do not occur in
  what the pattern captures and are not modelled.)
\<close>

definition digits_val :: "string \<Rightarrow> nat" where
  "digits_val ds = foldl (\<lambda>acc c. 10 * acc + (of_char c - 48)) 0 ds"

definition parse_unsigned :: "string \<Rightarrow> rat option" where
  "parse_unsigned s =
     (let ip = takeWhile is_digit s; r = dropWhile is_digit s
      in if ip = [] then None
         else (case r of
                 c # t \<Rightarrow>
                   if c = CHR ''.''
                   then Some (of_nat (digits_val ip) +
                              of_nat (digits_val (takeWhile is_digit t)) /
                                10 ^ length (takeWhile is_digit t))
                   else Some (of_nat (digits_val ip))
               | [] \<Rightarrow> Some (of_nat (digits_val ip))))"

definition parseFloat :: "string \<Rightarrow> jsnum" where
  "parseFloat s =
     (case s of
        c # t \<Rightarrow>
          if c = CHR ''-''
          then (case parse_unsigned t of None \<Rightarrow> NaN | Some v \<Rightarrow> to_double (- v))
          else (case parse_unsigned s of None \<Rightarrow> NaN | Some v \<Rightarrow> to_double v)
      | [] \<Rightarrow> NaN)"


section \<open>The application state and its handlers\<close>

record geo_point =
  lat :: rat
  lng :: rat

text \<open>
  The React state variables that \<open>analyzeSolar\<close>, \<open>searchLocation\<close> and the close button
  of the results panel read or write, together with the environment they act on: the
  ambient generator behind \<open>Math.random\<close> (the value of its \<open>n\<close>-th call and the number
  of calls made so far), the messages shown with \<open>alert\<close> and the queries sent to the
  geocoding service with \<open>fetch\<close>.
\<close>

record world =
  selectedLocation :: "geo_point option"
  solarData :: "mock_data option"
  isAnalyzing :: bool
  userLocation :: geo_point
  searchQuery :: string
  isSearching :: bool
  solarSettings :: solar_settings
  random_values :: "nat \<Rightarrow> rat"
  random_calls :: nat
  alerts :: "string list"
  fetches :: "string list"

definition Math_random :: "world \<Rightarrow> rat \<times> world" where
  "Math_random w = (random_values w (random_calls w), w\<lparr>random_calls := Suc (random_calls w)\<rparr>)"

text \<open>
  \<open>analyzeSolar\<close> is an \<open>async\<close> function with one \<open>await\<close> (the three-second timer).
  \<open>analyzeSolar_start\<close> is the part that runs when it is called, \<open>analyzeSolar_resume\<close>
  the part that runs when the timer fires; other handlers may run in between. The
  argument \<open>s\<close> is the \<open>solarSettings\<close> held by the closure.
\<close>

definition analyzeSolar_start :: "rat \<Rightarrow> rat \<Rightarrow> world \<Rightarrow> world" where
  "analyzeSolar_start la lo w =
     w\<lparr>isAnalyzing := True, selectedLocation := Some \<lparr>lat = la, lng = lo\<rparr>\<rparr>"

definition analyzeSolar_resume :: "solar_settings \<Rightarrow> world \<Rightarrow> world" where
  "analyzeSolar_resume s w =
     (let (r1, w1) = Math_random w;
          (r2, w2) = Math_random w1
      in w2\<lparr>solarData := Some (solar_metrics s r1 r2), isAnalyzing := False\<rparr>)"

text \<open>A call of \<open>analyzeSolar\<close> during which no other handler runs.\<close>

definition analyzeSolar :: "solar_settings \<Rightarrow> rat \<Rightarrow> rat \<Rightarrow> world \<Rightarrow> world" where
  "analyzeSolar s la lo w = analyzeSolar_resume s (analyzeSolar_start la lo w)"

text \<open>The \<open>onClose\<close> handler of the results panel.\<close>

definition onClose :: "world \<Rightarrow> world" where
  "onClose w = w\<lparr>solarData := None, selectedLocation := None\<rparr>"

text \<open>
  What the geocoding request can come to. \<open>Fetch_Failed\<close> stands for every exception
  raised inside the \<open>try\<close> block: the promise of \<open>fetch\<close> rejects, the body is not JSON,
  or the first candidate has no \<open>center\<close> to take apart. Otherwise a JSON body arrives
  whose \<open>features\<close> field is absent (\<open>None\<close>) or a list of candidates, each given by its
  \<open>center\<close>, a pair longitude, latitude.
\<close>

datatype fetch_outcome = Fetch_Failed | Fetch_Json "(rat \<times> rat) list option"

text \<open>
  The test of line 127,
  \<open>!isNaN(lat) && !isNaN(lng) && lat >= -90 && lat <= 90 && lng >= -180 && lng <= 180\<close>.
\<close>

definition in_range :: "jsnum \<Rightarrow> jsnum \<Rightarrow> bool" where
  "in_range la lo =
     (\<not> isNaN la \<and> \<not> isNaN lo \<and>
      js_ge la (- 90) \<and> js_le la 90 \<and> js_ge lo (- 180) \<and> js_le lo 180)"

text \<open>
  The coordinate branch of \<open>searchLocation\<close> (lines 119 to 127): the point typed by the
  user, when the query matches the pattern and the two numbers pass the test. Numbers
  that pass it are finite, so the last case does not arise.
\<close>

definition direct_coords :: "string \<Rightarrow> geo_point option" where
  "direct_coords q =
     (case coordsMatch q of
        None \<Rightarrow> None
      | Some (g1, g3) \<Rightarrow>
          if in_range (parseFloat g1) (parseFloat g3)
          then (case (parseFloat g1, parseFloat g3) of
                  (Num la, Num lo) \<Rightarrow> Some \<lparr>lat = la, lng = lo\<rparr>
                | _ \<Rightarrow> None)
          else None)"

definition not_found_message :: string where
  "not_found_message = ''Location not found. Please try a different search term.''"

definition search_failed_message :: string where
  "search_failed_message = ''Search failed. Please check your connection and try again.''"

text \<open>
  \<open>searchLocation\<close>, with the behaviour of the geocoding service as the argument
  \<open>service\<close> (the outcome of a request for a given query text).
\<close>

definition searchLocation :: "(string \<Rightarrow> fetch_outcome) \<Rightarrow> world \<Rightarrow> world" where
  "searchLocation service w =
     (if trim (searchQuery w) = [] then w
      else
        let w1 = w\<lparr>isSearching := True\<rparr> in
        (case direct_coords (searchQuery w) of
           Some p \<Rightarrow> w1\<lparr>userLocation := p, searchQuery := [], isSearching := False\<rparr>
         | None \<Rightarrow>
             let w2 = w1\<lparr>fetches := fetches w1 @ [searchQuery w]\<rparr> in
             (case service (searchQuery w) of
                Fetch_Failed \<Rightarrow>
                  w2\<lparr>alerts := alerts w2 @ [search_failed_message], isSearching := False\<rparr>
              | Fetch_Json None \<Rightarrow>
                  w2\<lparr>alerts := alerts w2 @ [not_found_message], isSearching := False\<rparr>
              | Fetch_Json (Some []) \<Rightarrow>
                  w2\<lparr>alerts := alerts w2 @ [not_found_message], isSearching := False\<rparr>
              | Fetch_Json (Some ((lo, la) # cs)) \<Rightarrow>
                  w2\<lparr>userLocation := \<lparr>lat = la, lng = lo\<rparr>, searchQuery := [],
                     isSearching := False\<rparr>)))"

text \<open>
  The three phases of the page, read off what it renders: the processing overlay is
  shown while \<open>isAnalyzing\<close> holds, the results panel while \<open>solarData\<close> is not
  \<open>null\<close>. The results panel prints \<open>location.lat\<close> of \<open>selectedLocation\<close> (line 969):
  when \<open>solarData\<close> is set and \<open>selectedLocation\<close> is \<open>null\<close> the render throws a
  \<open>TypeError\<close>, and as there is no error boundary the page is unmounted.
\<close>

datatype session_state = Idle | Analyzing | Resolved

datatype render_error = TypeError

definition session_state_of :: "world \<Rightarrow> render_error + session_state" where
  "session_state_of w =
     (if solarData w \<noteq> None \<and> selectedLocation w = None then Inl TypeError
      else Inr (if isAnalyzing w then Analyzing
                else if solarData w \<noteq> None then Resolved
                else Idle))"

text \<open>
  The state of a freshly loaded page (the initial values given to \<open>useState\<close>), for a
  given sequence of values of \<open>Math.random\<close>.
\<close>

definition initial_world :: "(nat \<Rightarrow> rat) \<Rightarrow> world" where
  "initial_world rs =
     \<lparr>selectedLocation = None, solarData = None, isAnalyzing = False,
      userLocation = \<lparr>lat = 407128 / 10000, lng = - (740060 / 10000)\<rparr>,
      searchQuery = [], isSearching = False, solarSettings = default_settings,
      random_values = rs, random_calls = 0, alerts = [], fetches = []\<rparr>"

text \<open>
  A page on which one analysis, of the default point, has completed, so that the
  results panel with its close button is on screen.
\<close>

definition resolved_world :: "(nat \<Rightarrow> rat) \<Rightarrow> world" where
  "resolved_world rs =
     analyzeSolar default_settings (407128 / 10000) (- (740060 / 10000)) (initial_world rs)"

text \<open>Two generators: one that always returns a half, one that returns zero twice first.\<close>

definition half_values :: "nat \<Rightarrow> rat" where
  "half_values n = 1 / 2"

definition step_values :: "nat \<Rightarrow> rat" where
  "step_values n = (if n < 2 then 0 else 1 / 2)"

text \<open>
  The parts of the coordinate pattern, for stating which strings it matches: \<open>-?\<close>,
  \<open>\d+\<close> and \<open>(\.\d+)?\<close>.
\<close>

definition is_sign :: "string \<Rightarrow> bool" where
  "is_sign sg = (sg = [] \<or> sg = [CHR ''-''])"

definition is_digits :: "string \<Rightarrow> bool" where
  "is_digits ds = (ds \<noteq> [] \<and> list_all is_digit ds)"

definition is_fraction :: "string \<Rightarrow> bool" where
  "is_fraction fr = (case fr of [] \<Rightarrow> True | c # fd \<Rightarrow> c = CHR ''.'' \<and> is_digits fd)"

text \<open>The ranges of the three sliders (their \<open>min\<close> and \<open>max\<close> attributes).\<close>

definition in_slider_ranges :: "solar_settings \<Rightarrow> bool" where
  "in_slider_ranges s =
     (15 \<le> panelEfficiency s \<and> panelEfficiency s \<le> 25 \<and>
      10 \<le> systemLosses s \<and> systemLosses s \<le> 20 \<and>
      8 / 100 \<le> electricityRate s \<and> electricityRate s \<le> 30 / 100)"

text \<open>
  The outcomes of a geocoding request that give no point: the request failed, or the
  answer has no candidate. Each has its message.
\<close>

definition lookup_failed :: "fetch_outcome \<Rightarrow> bool" where
  "lookup_failed r = (r = Fetch_Failed \<or> r = Fetch_Json None \<or> r = Fetch_Json (Some []))"

definition failure_message :: "fetch_outcome \<Rightarrow> string" where
  "failure_message r = (if r = Fetch_Failed then search_failed_message else not_found_message)"


section \<open>Rounding\<close>

lemma floor_rat_numeral_div [simp]:
  "\<lfloor>numeral a / numeral b :: rat\<rfloor> = numeral a div numeral b"
  by (metis floor_divide_of_int_eq of_int_numeral)

lemma Math_round_numeral_div [simp]:
  "Math_round (numeral a / numeral b) = (2 * numeral a + numeral b) div (2 * numeral b)"
proof -
  have "(numeral a / numeral b :: rat) + 1 / 2 =
        of_int (2 * numeral a + numeral b) / of_int (2 * numeral b)"
    by (simp add: field_simps)
  then show ?thesis
    unfolding Math_round_def by (simp only: floor_divide_of_int_eq)
qed

lemma Math_round_of_int [simp]: "Math_round (of_int k) = k"
  unfolding Math_round_def by linarith

lemma Math_round_numeral [simp]: "Math_round (numeral k) = numeral k"
  using Math_round_of_int [of "numeral k"] by simp

lemma Math_round_zero [simp]: "Math_round 0 = 0"
  using Math_round_of_int [of 0] by simp

lemma Math_round_mono: "x \<le> y \<Longrightarrow> Math_round x \<le> Math_round y"
  unfolding Math_round_def by (intro floor_mono) simp

lemma Math_round_nonneg: "0 \<le> x \<Longrightarrow> 0 \<le> Math_round x"
  using Math_round_mono [of 0 x] by simp


text \<open>
  Two checks of \<open>to_double\<close>: \<open>flog2\<close> is the binary exponent, and the rounding moves a
  number by at most half a unit, leaving integers alone.
\<close>

lemma pow2_pos: "0 < pow2 q"
  by (simp add: pow2_def)

lemma pow2_Suc: "pow2 (q + 1) = 2 * pow2 q"
proof (cases "0 \<le> q")
  case True
  then have "nat (q + 1) = Suc (nat q)" by simp
  then show ?thesis using True by (simp add: pow2_def)
next
  case False
  then have "nat (- q) = Suc (nat (- (q + 1)))" by simp
  then show ?thesis using False by (simp add: pow2_def)
qed

lemma pow2_pred: "pow2 (q - 1) = pow2 q / 2"
  using pow2_Suc [of "q - 1"] by simp

lemma flog2_bounds:
  "0 < x \<Longrightarrow> pow2 (flog2 x) \<le> x \<and> x < pow2 (flog2 x + 1)"
proof (induction x rule: flog2.induct)
  case (1 x)
  show ?case
  proof (cases "2 \<le> x")
    case True
    define e where "e = flog2 (x / 2)"
    have f: "flog2 x = e + 1"
      unfolding e_def using True 1(3) by (subst flog2.simps) simp
    have "pow2 e \<le> x / 2 \<and> x / 2 < pow2 (e + 1)"
      unfolding e_def using 1(1) 1(3) True by simp
    then have "2 * pow2 e \<le> x \<and> x < 2 * pow2 (e + 1)" by simp
    then show ?thesis unfolding f pow2_Suc .
  next
    case False
    show ?thesis
    proof (cases "x < 1")
      case True
      define e where "e = flog2 (x * 2)"
      have f: "flog2 x = e - 1"
        unfolding e_def using True 1(3) False by (subst flog2.simps) simp
      have "pow2 e \<le> x * 2 \<and> x * 2 < pow2 (e + 1)"
        unfolding e_def using 1(2) 1(3) False True by simp
      then have "pow2 e / 2 \<le> x \<and> x < pow2 e" by (simp add: pow2_Suc)
      then show ?thesis unfolding f pow2_pred by simp
    next
      case nl: False
      then have f: "flog2 x = 0" using 1(3) False by (subst flog2.simps) simp
      show ?thesis unfolding f using nl False by (simp add: pow2_def)
    qed
  qed
qed

lemma round_half_even_near:
  "\<bar>of_int (round_half_even y) - y\<bar> \<le> 1 / 2"
proof -
  have "of_int \<lfloor>y\<rfloor> \<le> y" "y < of_int \<lfloor>y\<rfloor> + 1" by linarith+
  then show ?thesis
    by (auto simp: round_half_even_def Let_def)
qed

lemma round_half_even_of_int [simp]: "round_half_even (of_int k) = k"
  by (simp add: round_half_even_def)


section \<open>The fields of the estimate\<close>

lemma roofArea_eq:
  "roofArea (solar_metrics s r1 r2) = Math_round (120 + r1 * 80)"
  by (simp add: solar_metrics_def Let_def)

lemma usableArea_eq:
  "usableArea (solar_metrics s r1 r2) =
     Math_round (of_int (roofArea (solar_metrics s r1 r2)) * (8 / 10))"
  by (simp add: solar_metrics_def Let_def)

lemma systemSize_eq:
  "systemSize (solar_metrics s r1 r2) =
     Math_round (of_int (usableArea (solar_metrics s r1 r2)) * panelEfficiency s / 100)"
  by (simp add: solar_metrics_def Let_def)

lemma annualProduction_eq:
  "annualProduction (solar_metrics s r1 r2) =
     Math_round (of_int (systemSize (solar_metrics s r1 r2)) * 1300 *
                 (1 - systemLosses s / 100))"
  by (simp add: solar_metrics_def Let_def)

lemma monthlySavings_eq:
  "monthlySavings (solar_metrics s r1 r2) =
     Math_round (of_int (annualProduction (solar_metrics s r1 r2)) * electricityRate s / 12)"
  by (simp add: solar_metrics_def Let_def)

lemma paybackPeriod_eq:
  "paybackPeriod (solar_metrics s r1 r2) =
     js_over (js_round (js_times
        (js_div (of_int (systemSize (solar_metrics s r1 r2)) * 2500)
                (of_int (monthlySavings (solar_metrics s r1 r2)) * 12)) 10)) 10"
  by (simp add: solar_metrics_def Let_def)

lemma systemSize_systemLosses [simp]:
  "systemSize (solar_metrics (s\<lparr>systemLosses := l\<rparr>) r1 r2) =
     systemSize (solar_metrics s r1 r2)"
  by (simp add: solar_metrics_def Let_def)

lemma roofArea_ge:
  assumes "0 \<le> r1"
  shows "120 \<le> roofArea (solar_metrics s r1 r2)"
proof -
  have "(120::rat) \<le> 120 + r1 * 80" using assms by simp
  from Math_round_mono [OF this] show ?thesis
    by (simp add: roofArea_eq)
qed

lemma roofArea_le:
  assumes "r1 \<le> 1"
  shows "roofArea (solar_metrics s r1 r2) \<le> 200"
proof -
  have "120 + r1 * 80 \<le> (200::rat)" using assms by simp
  from Math_round_mono [OF this] show ?thesis
    by (simp add: roofArea_eq)
qed

lemma usableArea_ge:
  assumes "0 \<le> r1"
  shows "96 \<le> usableArea (solar_metrics s r1 r2)"
proof -
  have "(96::rat) \<le> of_int (roofArea (solar_metrics s r1 r2)) * (8 / 10)"
    using roofArea_ge [OF assms, of s r2] by simp
  from Math_round_mono [OF this] show ?thesis
    by (simp add: usableArea_eq)
qed

lemma systemSize_nonneg:
  assumes "0 \<le> r1" "0 \<le> panelEfficiency s"
  shows "0 \<le> systemSize (solar_metrics s r1 r2)"
proof -
  have "(0::rat) \<le> of_int (usableArea (solar_metrics s r1 r2))"
    using usableArea_ge [OF assms(1), of s r2] by simp
  then have "0 \<le> of_int (usableArea (solar_metrics s r1 r2)) * panelEfficiency s / 100"
    using assms(2) by simp
  from Math_round_nonneg [OF this] show ?thesis
    by (simp add: systemSize_eq)
qed

lemma systemSize_ge:
  assumes "0 \<le> r1" "15 \<le> panelEfficiency s"
  shows "14 \<le> systemSize (solar_metrics s r1 r2)"
proof -
  have u: "(96::rat) \<le> of_int (usableArea (solar_metrics s r1 r2))"
    using usableArea_ge [OF assms(1), of s r2] by linarith
  have "(96::rat) * 15 \<le> of_int (usableArea (solar_metrics s r1 r2)) * panelEfficiency s"
    using u assms(2) by (intro mult_mono) simp_all
  then have "(144 / 10 :: rat) \<le>
             of_int (usableArea (solar_metrics s r1 r2)) * panelEfficiency s / 100"
    by simp
  from Math_round_mono [OF this] show ?thesis
    by (simp add: systemSize_eq)
qed

lemma annualProduction_ge:
  assumes "0 \<le> r1" "15 \<le> panelEfficiency s" "systemLosses s \<le> 20"
  shows "14560 \<le> annualProduction (solar_metrics s r1 r2)"
proof -
  have k: "(14::rat) \<le> of_int (systemSize (solar_metrics s r1 r2))"
    using systemSize_ge [OF assms(1,2), of r2] by linarith
  have l: "(8 / 10 :: rat) \<le> 1 - systemLosses s / 100"
    using assms(3) by simp
  have "(14 * 1300 :: rat) * (8 / 10) \<le>
        of_int (systemSize (solar_metrics s r1 r2)) * 1300 * (1 - systemLosses s / 100)"
    using k l by (intro mult_mono) simp_all
  then have "(14560 :: rat) \<le>
        of_int (systemSize (solar_metrics s r1 r2)) * 1300 * (1 - systemLosses s / 100)"
    by simp
  from Math_round_mono [OF this] show ?thesis
    by (simp add: annualProduction_eq)
qed

lemma monthlySavings_ge:
  assumes "0 \<le> r1" "15 \<le> panelEfficiency s" "systemLosses s \<le> 20"
    and "8 / 100 \<le> electricityRate s"
  shows "97 \<le> monthlySavings (solar_metrics s r1 r2)"
proof -
  have k: "(14560::rat) \<le> of_int (annualProduction (solar_metrics s r1 r2))"
    using annualProduction_ge [OF assms(1,2,3), of r2] by linarith
  have "(14560 :: rat) * (8 / 100) \<le>
        of_int (annualProduction (solar_metrics s r1 r2)) * electricityRate s"
    using k assms(4) by (intro mult_mono) simp_all
  then have "(14560 * 8 / 1200 :: rat) \<le>
        of_int (annualProduction (solar_metrics s r1 r2)) * electricityRate s / 12"
    by simp
  from Math_round_mono [OF this] show ?thesis
    by (simp add: monthlySavings_eq)
qed

lemma paybackPeriod_finite:
  assumes "monthlySavings (solar_metrics s r1 r2) \<noteq> 0"
  shows "paybackPeriod (solar_metrics s r1 r2) =
    Num (of_int (Math_round (of_int (systemSize (solar_metrics s r1 r2)) * 2500 /
          (of_int (monthlySavings (solar_metrics s r1 r2)) * 12) * 10)) / 10)"
  using assms by (simp add: paybackPeriod_eq js_div_def)

lemma paybackPeriod_zero_savings:
  assumes "monthlySavings (solar_metrics s r1 r2) = 0"
  shows "paybackPeriod (solar_metrics s r1 r2) =
    (if systemSize (solar_metrics s r1 r2) = 0 then NaN
     else if 0 < systemSize (solar_metrics s r1 r2) then Infinity else NegInfinity)"
  using assms by (simp add: paybackPeriod_eq js_div_def)

lemma scenario_metrics:
  "solar_metrics default_settings (1 / 2) (1 / 2) =
     \<lparr>roofArea = 160, usableArea = 128, annualSolarIrradiance = 1650, systemSize = 26,
      annualProduction = 29068, co2Savings = 11627, monthlySavings = 291,
      paybackPeriod = Num (186 / 10)\<rparr>"
  by (simp add: solar_metrics_def default_settings_def Let_def js_div_def)


section \<open>\<open>analyzeSolar\<close> as a whole\<close>

lemma analyzeSolar_solarData:
  "solarData (analyzeSolar s la lo w) =
     Some (solar_metrics s (random_values w (random_calls w))
                           (random_values w (Suc (random_calls w))))"
  by (simp add: analyzeSolar_def analyzeSolar_resume_def analyzeSolar_start_def
      Math_random_def Let_def)

lemma analyzeSolar_selectedLocation:
  "selectedLocation (analyzeSolar s la lo w) = Some \<lparr>lat = la, lng = lo\<rparr>"
  by (simp add: analyzeSolar_def analyzeSolar_resume_def analyzeSolar_start_def
      Math_random_def Let_def)


section \<open>The worked scenario (C1)\<close>

text \<open>
  Claim C1, as the specification states it: for the point (40.7128, -74.0060), the
  settings 20, 14 and 0.12 and draws of 40 and 150 (both calls of \<open>Math.random\<close>
  returning a half), the estimate has \<open>paybackPeriod\<close> 1.9. It does not: the record
  with the eight claimed values is not what \<open>analyzeSolar\<close> stores.
\<close>

theorem analyzeSolar_scenario_payback_counterexample:
  "solarData (analyzeSolar default_settings (407128 / 10000) (- (740060 / 10000))
                (initial_world half_values)) \<noteq>
     Some \<lparr>roofArea = 160, usableArea = 128, annualSolarIrradiance = 1650, systemSize = 26,
           annualProduction = 29068, co2Savings = 11627, monthlySavings = 291,
           paybackPeriod = Num (19 / 10)\<rparr>"
  by (simp add: analyzeSolar_solarData initial_world_def half_values_def scenario_metrics)

text \<open>
  Claim C1, amended: with the same inputs the seven integer fields are as claimed
  (160, 128, 26, 1650, 29068, 11627 and 291) and \<open>paybackPeriod\<close> is 18.6, that is
  \<open>26 * 2500 / (291 * 12)\<close> rounded to one decimal.
\<close>

theorem analyzeSolar_scenario:
  assumes "random_values w (random_calls w) = 1 / 2"
    and "random_values w (Suc (random_calls w)) = 1 / 2"
  shows "solarData (analyzeSolar default_settings (407128 / 10000) (- (740060 / 10000)) w) =
     Some \<lparr>roofArea = 160, usableArea = 128, annualSolarIrradiance = 1650, systemSize = 26,
           annualProduction = 29068, co2Savings = 11627, monthlySavings = 291,
           paybackPeriod = Num (186 / 10)\<rparr>"
  unfolding analyzeSolar_solarData assms by (rule arg_cong [OF scenario_metrics])

theorem analyzeSolar_scenario_witness:
  "random_values (initial_world half_values) (random_calls (initial_world half_values)) = 1 / 2 \<and>
   random_values (initial_world half_values)
     (Suc (random_calls (initial_world half_values))) = 1 / 2 \<and>
   solarData (analyzeSolar default_settings (407128 / 10000) (- (740060 / 10000))
                (initial_world half_values)) =
     Some \<lparr>roofArea = 160, usableArea = 128, annualSolarIrradiance = 1650, systemSize = 26,
           annualProduction = 29068, co2Savings = 11627, monthlySavings = 291,
           paybackPeriod = Num (186 / 10)\<rparr>"
  using analyzeSolar_scenario [of "initial_world half_values"]
  by (simp add: initial_world_def half_values_def)


section \<open>Zero monthly savings (C3)\<close>

text \<open>
  The formula alone, given an electricity rate of 0, has monthly savings of 0 and
  divides by zero: the result is \<open>Infinity\<close>. The page cannot hold such a rate: the state
  starts at 0.12 and the slider runs from 0.08 to 0.30.
\<close>

lemma zero_rate_formula:
  "monthlySavings
     (solar_metrics (default_settings\<lparr>electricityRate := 0\<rparr>) (1 / 2) (1 / 2)) = 0 \<and>
   paybackPeriod
     (solar_metrics (default_settings\<lparr>electricityRate := 0\<rparr>) (1 / 2) (1 / 2)) = Infinity"
  by (simp add: solar_metrics_def default_settings_def Let_def js_div_def)




section \<open>Usable area (C6)\<close>

text \<open>Every integer from 120 to 200 is the \<open>roofArea\<close> of some draw.\<close>

lemma roofArea_generated:
  assumes "120 \<le> A" and "A \<le> 200"
  shows "\<exists>r1. 0 \<le> r1 \<and> r1 < 1 \<and> roofArea (solar_metrics s r1 r2) = A"
proof -
  define d :: rat where "d = (of_int A - 120) / 161"
  define r :: rat where "r = 2 * d"
  have lo: "(120::rat) \<le> of_int A" and hi: "of_int A \<le> (200::rat)"
    using assms by simp_all
  have d0: "0 \<le> d" and d1: "d < 1 / 2"
    using lo hi by (simp_all add: d_def)
  have x: "120 + r * 80 = of_int A - d"
    by (simp add: r_def d_def field_simps)
  have "\<lfloor>of_int A - d + 1 / 2\<rfloor> = A"
    using d0 d1 by (intro floor_unique) simp_all
  then have "Math_round (120 + r * 80) = A"
    by (simp only: Math_round_def x)
  then have "roofArea (solar_metrics s r r2) = A" by (simp add: roofArea_eq)
  moreover have "0 \<le> r" "r < 1" using d0 d1 by (simp_all add: r_def)
  ultimately show ?thesis by blast
qed

text \<open>
  Claim C6: for every value of \<open>Math.random\<close> (at least 0, below 1) the generated
  \<open>roofArea\<close> lies in [120, 200] and \<open>usableArea\<close> is \<open>0.8 * roofArea\<close> rounded to the
  nearest integer.
\<close>

theorem usableArea_invariant:
  assumes "0 \<le> r1" and "r1 < 1"
  shows "120 \<le> roofArea (solar_metrics s r1 r2) \<and> roofArea (solar_metrics s r1 r2) \<le> 200 \<and>
         usableArea (solar_metrics s r1 r2) =
           Math_round (8 / 10 * of_int (roofArea (solar_metrics s r1 r2)))"
  using roofArea_ge [OF assms(1), of s r2] roofArea_le [of r1 s r2] assms(2)
  by (simp add: usableArea_eq mult.commute)

theorem usableArea_invariant_witness:
  "(0::rat) \<le> 1 / 2 \<and> (1 / 2 :: rat) < 1 \<and>
   120 \<le> roofArea (solar_metrics default_settings (1 / 2) (1 / 2)) \<and>
   roofArea (solar_metrics default_settings (1 / 2) (1 / 2)) \<le> 200 \<and>
   usableArea (solar_metrics default_settings (1 / 2) (1 / 2)) = 128"
  using usableArea_invariant [of "1 / 2" default_settings "1 / 2"]
  by (simp add: roofArea_eq)


section \<open>Production against losses (C7)\<close>

text \<open>
  Claim C7: with the draws, the panel efficiency and the electricity rate held fixed,
  \<open>annualProduction\<close> does not increase when \<open>systemLosses\<close> grows: for losses
  \<open>a \<le> b\<close> the production at \<open>b\<close> is at most the production at \<open>a\<close>. This holds for
  all \<open>a \<le> b\<close>, in particular in [10, 20], as long as the efficiency and the draw are not
  negative.
\<close>

theorem annualProduction_antitone:
  assumes "0 \<le> panelEfficiency s" and "0 \<le> r1" and "a \<le> b"
  shows "annualProduction (solar_metrics (s\<lparr>systemLosses := b\<rparr>) r1 r2)
       \<le> annualProduction (solar_metrics (s\<lparr>systemLosses := a\<rparr>) r1 r2)"
proof -
  let ?k = "of_int (systemSize (solar_metrics s r1 r2)) * 1300 :: rat"
  have k: "0 \<le> ?k" using systemSize_nonneg [OF assms(2,1), of r2] by simp
  have "1 - b / 100 \<le> 1 - a / 100" using assms(3) by simp
  then have "?k * (1 - b / 100) \<le> ?k * (1 - a / 100)"
    using k by (rule mult_left_mono)
  from Math_round_mono [OF this] show ?thesis
    by (simp add: annualProduction_eq)
qed

theorem annualProduction_antitone_witness:
  "0 \<le> panelEfficiency default_settings \<and> (0::rat) \<le> 1 / 2 \<and> (10::rat) \<le> 20 \<and>
   annualProduction (solar_metrics (default_settings\<lparr>systemLosses := 20\<rparr>) (1 / 2) (1 / 2))
     \<le> annualProduction (solar_metrics (default_settings\<lparr>systemLosses := 10\<rparr>) (1 / 2) (1 / 2))"
  using annualProduction_antitone [of default_settings "1 / 2" 10 20 "1 / 2"]
  by (simp add: default_settings_def)


section \<open>Positive savings within the slider ranges (C10)\<close>

text \<open>
  Claim C10: for settings within the ranges of the three sliders and a roof-area draw
  \<open>Math.random() * 80\<close> in [0, 80], \<open>monthlySavings\<close> is strictly positive, so the
  divisor of the payback computation is not zero and \<open>paybackPeriod\<close> is a finite
  number.
\<close>

theorem monthlySavings_positive:
  assumes "in_slider_ranges s" and "0 \<le> r1 * 80" and "r1 * 80 \<le> 80"
  shows "0 < monthlySavings (solar_metrics s r1 r2) \<and>
         is_finite (paybackPeriod (solar_metrics s r1 r2))"
proof -
  have r: "0 \<le> r1" using assms(2) by simp
  have s: "15 \<le> panelEfficiency s" "systemLosses s \<le> 20" "8 / 100 \<le> electricityRate s"
    using assms(1) by (simp_all add: in_slider_ranges_def)
  from monthlySavings_ge [OF r s, of r2]
  have pos: "0 < monthlySavings (solar_metrics s r1 r2)" by linarith
  then have "monthlySavings (solar_metrics s r1 r2) \<noteq> 0" by simp
  from paybackPeriod_finite [OF this] pos show ?thesis by simp
qed

theorem monthlySavings_positive_witness:
  "in_slider_ranges default_settings \<and> (0::rat) \<le> 1 / 2 * 80 \<and> (1 / 2 * 80 :: rat) \<le> 80 \<and>
   0 < monthlySavings (solar_metrics default_settings (1 / 2) (1 / 2)) \<and>
   is_finite (paybackPeriod (solar_metrics default_settings (1 / 2) (1 / 2)))"
  using monthlySavings_positive [of default_settings "1 / 2" "1 / 2"]
  by (simp add: in_slider_ranges_def default_settings_def)


section \<open>The coordinate pattern\<close>

text \<open>Digits, the minus sign, the dot, the comma and white space are pairwise distinct.\<close>

lemma is_digit_not_minus [simp]: "\<not> is_digit CHR ''-''"
  by (simp add: is_digit_def)
lemma is_digit_not_dot [simp]: "\<not> is_digit CHR ''.''"
  by (simp add: is_digit_def)
lemma is_digit_not_comma [simp]: "\<not> is_digit CHR '',''"
  by (simp add: is_digit_def)
lemma is_space_not_minus [simp]: "\<not> is_space CHR ''-''"
  by (simp add: is_space_def)
lemma is_digit_not_space: "is_digit c \<Longrightarrow> \<not> is_space c"
  by (auto simp: is_digit_def is_space_def)

lemma takeWhile_digits:
  assumes "list_all is_digit ip" and "rest = [] \<or> \<not> is_digit (hd rest)"
  shows "takeWhile is_digit (ip @ rest) = ip"
proof -
  have "takeWhile is_digit rest = []"
    using assms(2) by (cases rest) auto
  then show ?thesis
    using assms(1) by (simp add: list_all_iff)
qed

lemma dropWhile_digits:
  assumes "list_all is_digit ip" and "rest = [] \<or> \<not> is_digit (hd rest)"
  shows "dropWhile is_digit (ip @ rest) = rest"
proof -
  have "dropWhile is_digit rest = rest"
    using assms(2) by (cases rest) auto
  then show ?thesis
    using assms(1) by (simp add: list_all_iff)
qed

lemma digits_hd:
  assumes "is_digits ip"
  shows "ip \<noteq> [] \<and> is_digit (hd ip)"
  using assms by (cases ip) (auto simp: is_digits_def)

lemma scan_unsigned_pattern:
  assumes ip: "is_digits ip" and fr: "is_fraction fr"
    and rest: "rest = [] \<or> hd rest = CHR '',''"
  shows "takeWhile is_digit (ip @ fr @ rest) = ip"
    and "dropWhile is_digit (ip @ fr @ rest) = fr @ rest"
proof -
  have nd: "fr @ rest = [] \<or> \<not> is_digit (hd (fr @ rest))"
    using fr rest by (cases fr) (auto simp: is_fraction_def)
  have all: "list_all is_digit ip" using ip by (simp add: is_digits_def)
  show "takeWhile is_digit (ip @ fr @ rest) = ip"
    by (rule takeWhile_digits [OF all nd])
  show "dropWhile is_digit (ip @ fr @ rest) = fr @ rest"
    by (rule dropWhile_digits [OF all nd])
qed

lemma scan_decimal_unsigned:
  assumes ip: "is_digits ip" and fr: "is_fraction fr"
    and rest: "rest = [] \<or> hd rest = CHR '',''"
  shows "(let i = takeWhile is_digit (ip @ fr @ rest);
              s2 = dropWhile is_digit (ip @ fr @ rest)
          in if i = [] then None
             else (case s2 of
                 c # t \<Rightarrow>
                   if c = CHR ''.'' \<and> takeWhile is_digit t \<noteq> []
                   then Some (sg @ i @ c # takeWhile is_digit t, dropWhile is_digit t)
                   else Some (sg @ i, s2)
               | [] \<Rightarrow> Some (sg @ i, s2))) = Some (sg @ ip @ fr, rest)"
proof -
  have ne: "ip \<noteq> []" using ip by (simp add: is_digits_def)
  have nd: "rest = [] \<or> \<not> is_digit (hd rest)" using rest by auto
  show ?thesis
  proof (cases fr)
    case Nil
    have t: "takeWhile is_digit (ip @ fr @ rest) = ip"
      and d: "dropWhile is_digit (ip @ fr @ rest) = fr @ rest"
      using scan_unsigned_pattern [OF ip fr rest] by simp_all
    show ?thesis
      unfolding t d Let_def using ne rest Nil by (cases rest) simp_all
  next
    case (Cons c fd)
    then have c: "c = CHR ''.''" and fd: "is_digits fd"
      using fr by (simp_all add: is_fraction_def)
    have all: "list_all is_digit fd" and fne: "fd \<noteq> []"
      using fd by (simp_all add: is_digits_def)
    show ?thesis
      using scan_unsigned_pattern [OF ip fr rest] ne Cons c fne
        takeWhile_digits [OF all nd] dropWhile_digits [OF all nd]
      by simp
  qed
qed

lemma scan_decimal_pattern:
  assumes sg: "is_sign sg" and ip: "is_digits ip" and fr: "is_fraction fr"
    and rest: "rest = [] \<or> hd rest = CHR '',''"
  shows "scan_decimal (sg @ ip @ fr @ rest) = Some (sg @ ip @ fr, rest)"
proof (cases "sg = []")
  case True
  obtain d ds where d: "ip = d # ds" "is_digit d"
    using digits_hd [OF ip] by (cases ip) auto
  then have "d \<noteq> CHR ''-''" by auto
  then show ?thesis
    using scan_decimal_unsigned [OF ip fr rest, of "[]"] True d
    by (simp add: scan_decimal_def)
next
  case False
  then have "sg = [CHR ''-'']" using sg by (simp add: is_sign_def)
  then show ?thesis
    using scan_decimal_unsigned [OF ip fr rest, of "[CHR ''-'']"]
    by (simp add: scan_decimal_def)
qed

lemma decimal_hd_not_space:
  assumes sg: "is_sign sg" and ip: "is_digits ip"
  shows "sg @ ip @ fr \<noteq> [] \<and> \<not> is_space (hd (sg @ ip @ fr))"
proof -
  obtain d ds where d: "ip = d # ds" "is_digit d"
    using digits_hd [OF ip] by (cases ip) auto
  show ?thesis
    using sg d is_digit_not_space [of d] by (auto simp: is_sign_def)
qed

lemma dropWhile_spaces:
  assumes "list_all is_space ws" and "b \<noteq> [] \<and> \<not> is_space (hd b)"
  shows "dropWhile is_space (ws @ b) = b"
proof -
  have "dropWhile is_space b = b" using assms(2) by (cases b) auto
  then show ?thesis using assms(1) by (simp add: list_all_iff)
qed

lemma coordsMatch_pattern:
  assumes "is_sign sg1" "is_digits ip1" "is_fraction fr1"
    and "list_all is_space ws"
    and "is_sign sg2" "is_digits ip2" "is_fraction fr2"
  shows "coordsMatch ((sg1 @ ip1 @ fr1) @ CHR '','' # ws @ (sg2 @ ip2 @ fr2)) =
           Some (sg1 @ ip1 @ fr1, sg2 @ ip2 @ fr2)"
proof -
  have a: "scan_decimal (sg1 @ ip1 @ fr1 @ (CHR '','' # ws @ sg2 @ ip2 @ fr2)) =
             Some (sg1 @ ip1 @ fr1, CHR '','' # ws @ sg2 @ ip2 @ fr2)"
    by (rule scan_decimal_pattern [OF assms(1-3)]) simp
  have b: "scan_decimal (sg2 @ ip2 @ fr2 @ []) = Some (sg2 @ ip2 @ fr2, [])"
    by (rule scan_decimal_pattern [OF assms(5-7)]) simp
  have d: "dropWhile is_space (ws @ sg2 @ ip2 @ fr2) = sg2 @ ip2 @ fr2"
    by (rule dropWhile_spaces [OF assms(4) decimal_hd_not_space [OF assms(5,6)]])
  show ?thesis
    using a b d by (simp add: coordsMatch_def)
qed

lemma parse_unsigned_pattern:
  assumes ip: "is_digits ip" and fr: "is_fraction fr"
  shows "\<exists>v. parse_unsigned (ip @ fr) = Some v \<and> 0 \<le> v"
proof -
  have t: "takeWhile is_digit (ip @ fr @ []) = ip"
    by (rule scan_unsigned_pattern(1) [OF ip fr]) simp
  have ne: "ip \<noteq> []" using ip by (simp add: is_digits_def)
  show ?thesis
    using t ne by (auto simp: parse_unsigned_def Let_def split: list.splits)
qed

lemma to_double_not_NaN: "\<not> isNaN (to_double x)"
  by (simp add: to_double_def)

lemma parseFloat_pattern:
  assumes sg: "is_sign sg" and ip: "is_digits ip" and fr: "is_fraction fr"
  shows "\<not> isNaN (parseFloat (sg @ ip @ fr))"
proof (cases "sg = []")
  case True
  obtain d ds where d: "ip = d # ds" "is_digit d"
    using digits_hd [OF ip] by (cases ip) auto
  then have "d \<noteq> CHR ''-''" by auto
  then show ?thesis
    using parse_unsigned_pattern [OF ip fr] True d
    by (auto simp: parseFloat_def to_double_not_NaN)
next
  case False
  then have "sg = [CHR ''-'']" using sg by (simp add: is_sign_def)
  then show ?thesis
    using parse_unsigned_pattern [OF ip fr]
    by (auto simp: parseFloat_def to_double_not_NaN)
qed

text \<open>Numbers that pass the range test are finite and within the bounds.\<close>

lemma in_range_iff:
  "in_range la lo \<longleftrightarrow>
     (\<exists>x y. la = Num x \<and> lo = Num y \<and> - 90 \<le> x \<and> x \<le> 90 \<and> - 180 \<le> y \<and> y \<le> 180)"
  by (cases la; cases lo) (auto simp: in_range_def)

lemma all_dropWhile_iff: "(\<forall>x\<in>set (dropWhile P s). P x) \<longleftrightarrow> (\<forall>x\<in>set s. P x)"
proof
  assume a: "\<forall>x\<in>set (dropWhile P s). P x"
  have "dropWhile P s = []"
  proof (rule ccontr)
    assume n: "dropWhile P s \<noteq> []"
    then have "\<not> P (hd (dropWhile P s))" by (rule hd_dropWhile)
    moreover have "hd (dropWhile P s) \<in> set (dropWhile P s)" using n by simp
    ultimately show False using a by blast
  qed
  then show "\<forall>x\<in>set s. P x" by simp
next
  assume "\<forall>x\<in>set s. P x"
  then show "\<forall>x\<in>set (dropWhile P s). P x" by (blast dest: set_dropWhileD)
qed

lemma trim_empty_iff: "trim s = [] \<longleftrightarrow> list_all is_space s"
  by (simp add: trim_def list_all_iff all_dropWhile_iff)

lemma pattern_not_blank:
  assumes "is_sign sg" "is_digits ip"
  shows "trim ((sg @ ip @ fr) @ rest) \<noteq> []"
proof -
  obtain d ds where d: "ip = d # ds" "is_digit d"
    using digits_hd [OF assms(2)] by (cases ip) auto
  have "d \<in> set ((sg @ ip @ fr) @ rest)" using d by simp
  moreover have "\<not> is_space d" using d is_digit_not_space by blast
  ultimately have "\<not> list_all is_space ((sg @ ip @ fr) @ rest)"
    unfolding list_all_iff by blast
  then show ?thesis
    by (simp only: trim_empty_iff not_False_eq_True)
qed

text \<open>Conversely, what the pattern matches is made of the three parts, twice.\<close>

lemma takeWhile_is_digits: "takeWhile is_digit s \<noteq> [] \<Longrightarrow> is_digits (takeWhile is_digit s)"
  by (auto simp: is_digits_def list_all_iff dest: set_takeWhileD)

lemma scan_decimal_sound:
  assumes "scan_decimal s = Some (m, r)"
  shows "s = m @ r \<and> (\<exists>sg ip fr. m = sg @ ip @ fr \<and> is_sign sg \<and> is_digits ip \<and> is_fraction fr)"
proof -
  define sg where "sg = (case s of c # t \<Rightarrow> if c = CHR ''-'' then [c] else [] | [] \<Rightarrow> [])"
  define s1 where "s1 = (case s of c # t \<Rightarrow> if c = CHR ''-'' then t else s | [] \<Rightarrow> s)"
  let ?ip = "takeWhile is_digit s1"
  let ?s2 = "dropWhile is_digit s1"
  have s: "s = sg @ s1" and sg: "is_sign sg"
    by (auto simp: sg_def s1_def is_sign_def split: list.splits)
  have s1: "s1 = ?ip @ ?s2" by simp
  have sgs1: "(case s of c # t \<Rightarrow> if c = CHR ''-'' then ([c], t) else ([], s)
                      | [] \<Rightarrow> ([], s)) = (sg, s1)"
    by (simp add: sg_def s1_def split: list.splits)
  have eq: "scan_decimal s =
     (if ?ip = [] then None
         else (case ?s2 of
                 c # t \<Rightarrow>
                   if c = CHR ''.'' \<and> takeWhile is_digit t \<noteq> []
                   then Some (sg @ ?ip @ c # takeWhile is_digit t, dropWhile is_digit t)
                   else Some (sg @ ?ip, ?s2)
               | [] \<Rightarrow> Some (sg @ ?ip, ?s2)))"
    unfolding scan_decimal_def sgs1 Let_def prod.case by (rule refl)
  have ne: "?ip \<noteq> []" using assms eq by (auto split: if_splits)
  then have ip: "is_digits ?ip" by (rule takeWhile_is_digits)
  show ?thesis
  proof (cases "\<exists>t. ?s2 = CHR ''.'' # t \<and> takeWhile is_digit t \<noteq> []")
    case True
    then obtain t where t: "?s2 = CHR ''.'' # t" "takeWhile is_digit t \<noteq> []" by blast
    have "Some (m, r) = Some (sg @ ?ip @ CHR ''.'' # takeWhile is_digit t, dropWhile is_digit t)"
      using assms ne t unfolding eq by simp
    then have m: "m = sg @ ?ip @ CHR ''.'' # takeWhile is_digit t" and r: "r = dropWhile is_digit t"
      by simp_all
    have fr: "is_fraction (CHR ''.'' # takeWhile is_digit t)"
      using takeWhile_is_digits [OF t(2)] by (simp add: is_fraction_def)
    have "s1 = ?ip @ CHR ''.'' # t" using s1 t(1) by simp
    then have "s = m @ r" using s m r by simp
    then show ?thesis using m sg ip fr by blast
  next
    case False
    have "Some (m, r) = Some (sg @ ?ip, ?s2)"
      using assms ne False unfolding eq by (auto split: list.splits if_splits)
    then have m: "m = sg @ ?ip @ []" and r: "r = ?s2" by simp_all
    have "is_fraction []" by (simp add: is_fraction_def)
    moreover have "s = m @ r" using s m r by simp
    ultimately show ?thesis using m sg ip by blast
  qed
qed

lemma coordsMatch_sound:
  assumes "coordsMatch q = Some (a, b)"
  shows "\<exists>sg1 ip1 fr1 ws sg2 ip2 fr2.
           q = (sg1 @ ip1 @ fr1) @ CHR '','' # ws @ (sg2 @ ip2 @ fr2) \<and>
           a = sg1 @ ip1 @ fr1 \<and> b = sg2 @ ip2 @ fr2 \<and>
           is_sign sg1 \<and> is_digits ip1 \<and> is_fraction fr1 \<and> list_all is_space ws \<and>
           is_sign sg2 \<and> is_digits ip2 \<and> is_fraction fr2"
proof -
  from assms obtain r' where
    a: "scan_decimal q = Some (a, CHR '','' # r')"
    and b: "scan_decimal (dropWhile is_space r') = Some (b, [])"
    by (auto simp: coordsMatch_def split: option.splits list.splits if_splits)
  from scan_decimal_sound [OF a] obtain sg1 ip1 fr1 where
    q: "q = a @ CHR '','' # r'" and a': "a = sg1 @ ip1 @ fr1"
    and p1: "is_sign sg1" "is_digits ip1" "is_fraction fr1" by blast
  from scan_decimal_sound [OF b] obtain sg2 ip2 fr2 where
    d: "dropWhile is_space r' = b" and b': "b = sg2 @ ip2 @ fr2"
    and p2: "is_sign sg2" "is_digits ip2" "is_fraction fr2" by auto
  define ws where "ws = takeWhile is_space r'"
  have ws: "list_all is_space ws"
    by (auto simp: ws_def list_all_iff dest: set_takeWhileD)
  have "r' = ws @ b" using d takeWhile_dropWhile_id [of is_space r'] by (simp add: ws_def)
  then have "q = (sg1 @ ip1 @ fr1) @ CHR '','' # ws @ (sg2 @ ip2 @ fr2)"
    using q a' b' by simp
  then show ?thesis using a' b' p1 p2 ws by blast
qed


section \<open>The two paths of \<open>searchLocation\<close>\<close>

lemma searchLocation_direct:
  assumes "trim (searchQuery w) \<noteq> []" and "direct_coords (searchQuery w) = Some p"
  shows "searchLocation service w = w\<lparr>userLocation := p, searchQuery := [], isSearching := False\<rparr>"
  using assms by (simp add: searchLocation_def Let_def)

lemma searchLocation_lookup:
  assumes "trim (searchQuery w) \<noteq> []" and "direct_coords (searchQuery w) = None"
  shows "fetches (searchLocation service w) = fetches w @ [searchQuery w]"
    and "userLocation (searchLocation service w) =
           (case service (searchQuery w) of
              Fetch_Json (Some ((lo', la') # cs)) \<Rightarrow> \<lparr>lat = la', lng = lo'\<rparr>
            | _ \<Rightarrow> userLocation w)"
  using assms
  by (auto simp: searchLocation_def Let_def split: fetch_outcome.splits option.splits list.splits)
lemmas to_double_eval =
  to_double_def round_to_quantum_def quantum_def flog2.simps pow2_def round_half_even_def

text \<open>
  Examples of the rounding: a double is read as itself, a tenth as the double next to
  it, and a decimal just above 90 as 90.
\<close>

lemma parseFloat_examples:
  "parseFloat ''51.5'' = Num (515 / 10)"
  "parseFloat ''-0.125'' = Num (- (125 / 1000))"
  "parseFloat ''120'' = Num 120"
  "parseFloat ''10'' = Num 10"
  "parseFloat ''0'' = Num 0"
  "parseFloat ''0.1'' = Num (3602879701896397 / 36028797018963968)"
  "parseFloat ''90.00000000000000001'' = Num 90"
  by (simp_all add: parseFloat_def parse_unsigned_def digits_val_def is_digit_def
      to_double_eval)

lemma pattern_examples:
  "is_sign []" "is_sign ''-''" "is_digits ''51''" "is_digits ''0''" "is_digits ''120''"
  "is_digits ''10''" "is_digits ''90''" "is_fraction ''.5''" "is_fraction ''.125''"
  "is_fraction ''.00000000000000001''" "is_fraction []" "list_all is_space '' ''"
  by (simp_all add: is_digits_def is_fraction_def is_sign_def is_space_def is_digit_def)


section \<open>Typed coordinates (C2)\<close>

text \<open>
  Claim C2: for every query of the form \<open>lat, lng\<close> (an optional minus sign, digits and
  an optional fraction, a comma, any white space, and a second such number), with
  \<open>la\<close> and \<open>lo\<close> the numbers that \<open>parseFloat\<close> reads from the two parts (the doubles
  nearest to the decimals typed): when \<open>la\<close> is in [-90, 90] and \<open>lo\<close> in [-180, 180],
  \<open>searchLocation\<close> sets the location to exactly that point and sends no request;
  when the pair fails the range test, which by \<open>in_range_iff\<close> is when either number
  is out of range or infinite, it sends the query to the geocoding service, and the
  location is then the first candidate returned, or unchanged when there is none: the
  typed point is not accepted.
\<close>

theorem searchLocation_coordinates:
  assumes pat1: "is_sign sg1" "is_digits ip1" "is_fraction fr1"
    and ws: "list_all is_space ws"
    and pat2: "is_sign sg2" "is_digits ip2" "is_fraction fr2"
    and q: "searchQuery w = (sg1 @ ip1 @ fr1) @ CHR '','' # ws @ (sg2 @ ip2 @ fr2)"
  shows "(parseFloat (sg1 @ ip1 @ fr1) = Num la \<and> parseFloat (sg2 @ ip2 @ fr2) = Num lo \<and>
          in_range (Num la) (Num lo) \<longrightarrow>
            searchLocation service w =
              w\<lparr>userLocation := \<lparr>lat = la, lng = lo\<rparr>, searchQuery := [],
                isSearching := False\<rparr> \<and>
            fetches (searchLocation service w) = fetches w) \<and>
         (\<not> in_range (parseFloat (sg1 @ ip1 @ fr1)) (parseFloat (sg2 @ ip2 @ fr2)) \<longrightarrow>
            fetches (searchLocation service w) = fetches w @ [searchQuery w] \<and>
            userLocation (searchLocation service w) =
              (case service (searchQuery w) of
                 Fetch_Json (Some ((lo', la') # cs)) \<Rightarrow> \<lparr>lat = la', lng = lo'\<rparr>
               | _ \<Rightarrow> userLocation w))"
proof -
  have m: "coordsMatch (searchQuery w) = Some (sg1 @ ip1 @ fr1, sg2 @ ip2 @ fr2)"
    unfolding q by (rule coordsMatch_pattern [OF pat1 ws pat2])
  have nb: "trim (searchQuery w) \<noteq> []"
    unfolding q by (rule pattern_not_blank [OF pat1(1,2)])
  have direct: "searchLocation service w =
              w\<lparr>userLocation := \<lparr>lat = la, lng = lo\<rparr>, searchQuery := [],
                isSearching := False\<rparr> \<and>
            fetches (searchLocation service w) = fetches w"
    if la: "parseFloat (sg1 @ ip1 @ fr1) = Num la"
      and lo: "parseFloat (sg2 @ ip2 @ fr2) = Num lo"
      and r: "in_range (Num la) (Num lo)"
  proof -
    have "direct_coords (searchQuery w) = Some \<lparr>lat = la, lng = lo\<rparr>"
      using r by (simp add: direct_coords_def m la lo)
    from searchLocation_direct [OF nb this, of service] show ?thesis by simp
  qed
  have lookup: "fetches (searchLocation service w) = fetches w @ [searchQuery w] \<and>
            userLocation (searchLocation service w) =
              (case service (searchQuery w) of
                 Fetch_Json (Some ((lo', la') # cs)) \<Rightarrow> \<lparr>lat = la', lng = lo'\<rparr>
               | _ \<Rightarrow> userLocation w)"
    if r: "\<not> in_range (parseFloat (sg1 @ ip1 @ fr1)) (parseFloat (sg2 @ ip2 @ fr2))"
  proof -
    have "direct_coords (searchQuery w) = None"
      using r by (simp add: direct_coords_def m)
    from searchLocation_lookup [OF nb this, of service] show ?thesis by simp
  qed
  show ?thesis using direct lookup by blast
qed

theorem searchLocation_coordinates_witness:
  "(is_sign [] \<and> is_digits ''51'' \<and> is_fraction ''.5'' \<and> list_all is_space '' '' \<and>
    is_sign ''-'' \<and> is_digits ''0'' \<and> is_fraction ''.125'' \<and>
    parseFloat ''51.5'' = Num (515 / 10) \<and> parseFloat ''-0.125'' = Num (- (125 / 1000)) \<and>
    in_range (Num (515 / 10)) (Num (- (125 / 1000))) \<and>
    userLocation (searchLocation (\<lambda>q. Fetch_Failed)
        ((initial_world half_values)\<lparr>searchQuery := ''51.5, -0.125''\<rparr>)) =
      \<lparr>lat = 515 / 10, lng = - (125 / 1000)\<rparr> \<and>
    fetches (searchLocation (\<lambda>q. Fetch_Failed)
        ((initial_world half_values)\<lparr>searchQuery := ''51.5, -0.125''\<rparr>)) = []) \<and>
   (is_digits ''120'' \<and> is_fraction [] \<and> is_digits ''10'' \<and>
    parseFloat ''120'' = Num 120 \<and> parseFloat ''10'' = Num 10 \<and>
    \<not> in_range (Num 120) (Num 10) \<and>
    userLocation (searchLocation (\<lambda>q. Fetch_Failed)
        ((initial_world half_values)\<lparr>searchQuery := ''120, 10''\<rparr>)) =
      \<lparr>lat = 407128 / 10000, lng = - (740060 / 10000)\<rparr> \<and>
    fetches (searchLocation (\<lambda>q. Fetch_Failed)
        ((initial_world half_values)\<lparr>searchQuery := ''120, 10''\<rparr>)) = [''120, 10'']) \<and>
   (is_digits ''90'' \<and> is_fraction ''.00000000000000001'' \<and>
    parseFloat ''90.00000000000000001'' = Num 90 \<and> parseFloat ''0'' = Num 0 \<and>
    in_range (Num 90) (Num 0) \<and>
    userLocation (searchLocation (\<lambda>q. Fetch_Failed)
        ((initial_world half_values)\<lparr>searchQuery := ''90.00000000000000001, 0''\<rparr>)) =
      \<lparr>lat = 90, lng = 0\<rparr> \<and>
    fetches (searchLocation (\<lambda>q. Fetch_Failed)
        ((initial_world half_values)\<lparr>searchQuery := ''90.00000000000000001, 0''\<rparr>)) = [])"
proof -
  have a: "userLocation (searchLocation (\<lambda>q. Fetch_Failed)
        ((initial_world half_values)\<lparr>searchQuery := ''51.5, -0.125''\<rparr>)) =
      \<lparr>lat = 515 / 10, lng = - (125 / 1000)\<rparr> \<and>
    fetches (searchLocation (\<lambda>q. Fetch_Failed)
        ((initial_world half_values)\<lparr>searchQuery := ''51.5, -0.125''\<rparr>)) = []"
    using searchLocation_coordinates
      [of "[]" "''51''" "''.5''" "'' ''" "''-''" "''0''" "''.125''"
          "(initial_world half_values)\<lparr>searchQuery := ''51.5, -0.125''\<rparr>"
          "515 / 10" "- (125 / 1000)" "\<lambda>q. Fetch_Failed"]
    by (simp add: parseFloat_examples pattern_examples in_range_def initial_world_def
        is_space_def)
  have b: "userLocation (searchLocation (\<lambda>q. Fetch_Failed)
        ((initial_world half_values)\<lparr>searchQuery := ''120, 10''\<rparr>)) =
      \<lparr>lat = 407128 / 10000, lng = - (740060 / 10000)\<rparr> \<and>
    fetches (searchLocation (\<lambda>q. Fetch_Failed)
        ((initial_world half_values)\<lparr>searchQuery := ''120, 10''\<rparr>)) = [''120, 10'']"
    using searchLocation_coordinates
      [of "[]" "''120''" "[]" "'' ''" "[]" "''10''" "[]"
          "(initial_world half_values)\<lparr>searchQuery := ''120, 10''\<rparr>"
          120 10 "\<lambda>q. Fetch_Failed"]
    by (simp add: parseFloat_examples pattern_examples in_range_def initial_world_def
        is_space_def)
  have c: "userLocation (searchLocation (\<lambda>q. Fetch_Failed)
        ((initial_world half_values)\<lparr>searchQuery := ''90.00000000000000001, 0''\<rparr>)) =
      \<lparr>lat = 90, lng = 0\<rparr> \<and>
    fetches (searchLocation (\<lambda>q. Fetch_Failed)
        ((initial_world half_values)\<lparr>searchQuery := ''90.00000000000000001, 0''\<rparr>)) = []"
    using searchLocation_coordinates
      [of "[]" "''90''" "''.00000000000000001''" "'' ''" "[]" "''0''" "[]"
          "(initial_world half_values)\<lparr>searchQuery := ''90.00000000000000001, 0''\<rparr>"
          90 0 "\<lambda>q. Fetch_Failed"]
    by (simp add: parseFloat_examples pattern_examples in_range_def initial_world_def
        is_space_def)
  show ?thesis
    using a b c
    by (simp add: parseFloat_examples pattern_examples in_range_def is_space_def)
qed


section \<open>Failed lookups (C4)\<close>

text \<open>
  Claim C4: when a lookup is made and the service returns no candidate, or the request
  does not complete, \<open>searchLocation\<close> shows a message with \<open>alert\<close> and leaves the map
  point unchanged; nothing else changes either, apart from the record of the request
  and the searching flag being off again.
\<close>

theorem searchLocation_lookup_failure:
  assumes "trim (searchQuery w) \<noteq> []" and "direct_coords (searchQuery w) = None"
    and "lookup_failed (service (searchQuery w))"
  shows "searchLocation service w =
           w\<lparr>isSearching := False,
             alerts := alerts w @ [failure_message (service (searchQuery w))],
             fetches := fetches w @ [searchQuery w]\<rparr> \<and>
         userLocation (searchLocation service w) = userLocation w"
  using assms
  by (auto simp: searchLocation_def lookup_failed_def failure_message_def Let_def)

lemma direct_coords_Atlantis: "direct_coords ''Atlantis'' = None"
  by (simp add: direct_coords_def coordsMatch_def scan_decimal_def is_digit_def)

lemma trim_Atlantis: "trim ''Atlantis'' \<noteq> []"
  by (simp add: trim_def is_space_def)

theorem searchLocation_lookup_failure_witness:
  "trim (searchQuery ((initial_world half_values)\<lparr>searchQuery := ''Atlantis''\<rparr>)) \<noteq> [] \<and>
   direct_coords (searchQuery ((initial_world half_values)\<lparr>searchQuery := ''Atlantis''\<rparr>)) = None \<and>
   lookup_failed (Fetch_Json (Some [])) \<and>
   userLocation (searchLocation (\<lambda>q. Fetch_Json (Some []))
       ((initial_world half_values)\<lparr>searchQuery := ''Atlantis''\<rparr>)) =
     \<lparr>lat = 407128 / 10000, lng = - (740060 / 10000)\<rparr> \<and>
   alerts (searchLocation (\<lambda>q. Fetch_Json (Some []))
       ((initial_world half_values)\<lparr>searchQuery := ''Atlantis''\<rparr>)) = [not_found_message]"
  using searchLocation_lookup_failure
    [of "(initial_world half_values)\<lparr>searchQuery := ''Atlantis''\<rparr>" "\<lambda>q. Fetch_Json (Some [])"]
  by (simp add: direct_coords_Atlantis trim_Atlantis lookup_failed_def failure_message_def initial_world_def)


section \<open>Where the randomness comes from (C5)\<close>

text \<open>
  Claim C5, as the specification states it: the estimate is a function of the point,
  the settings and an injected random source, so that two invocations with the same
  inputs give identical metrics. \<open>analyzeSolar\<close> takes the point only and draws from
  the ambient \<open>Math.random\<close>: called twice in a row with the same point and settings
  it stores different metrics.
\<close>

theorem analyzeSolar_repeat_counterexample:
  "solarData (analyzeSolar default_settings (407128 / 10000) (- (740060 / 10000))
      (analyzeSolar default_settings (407128 / 10000) (- (740060 / 10000))
         (initial_world step_values))) \<noteq>
   solarData (analyzeSolar default_settings (407128 / 10000) (- (740060 / 10000))
      (initial_world step_values))"
  by (simp add: analyzeSolar_solarData analyzeSolar_def analyzeSolar_resume_def
      analyzeSolar_start_def Math_random_def Let_def initial_world_def step_values_def
      solar_metrics_def default_settings_def)

text \<open>
  Claim C5, amended: the metrics that \<open>analyzeSolar\<close> stores are a function of the
  settings and of the two values that the ambient \<open>Math.random\<close> returns during the
  call; two invocations with the same settings that draw the same two values store
  identical metrics, whatever the point.
\<close>

theorem analyzeSolar_deterministic_in_draws:
  assumes "random_values w (random_calls w) = random_values w' (random_calls w')"
    and "random_values w (Suc (random_calls w)) = random_values w' (Suc (random_calls w'))"
  shows "solarData (analyzeSolar s la lo w) = solarData (analyzeSolar s la' lo' w')"
  using assms by (simp add: analyzeSolar_solarData)

theorem analyzeSolar_deterministic_in_draws_witness:
  "random_values (initial_world half_values) (random_calls (initial_world half_values)) =
     random_values (analyzeSolar default_settings 0 0 (initial_world half_values))
       (random_calls (analyzeSolar default_settings 0 0 (initial_world half_values))) \<and>
   random_values (initial_world half_values) (Suc (random_calls (initial_world half_values))) =
     random_values (analyzeSolar default_settings 0 0 (initial_world half_values))
       (Suc (random_calls (analyzeSolar default_settings 0 0 (initial_world half_values)))) \<and>
   solarData (analyzeSolar default_settings 0 0 (initial_world half_values)) =
     solarData (analyzeSolar default_settings 1 1
       (analyzeSolar default_settings 0 0 (initial_world half_values)))"
  using analyzeSolar_deterministic_in_draws
    [of "initial_world half_values" "analyzeSolar default_settings 0 0 (initial_world half_values)"
        default_settings 0 0 1 1]
  by (simp add: analyzeSolar_def analyzeSolar_resume_def
      analyzeSolar_start_def Math_random_def Let_def initial_world_def half_values_def)


section \<open>Closing the panel during an analysis (C8)\<close>

text \<open>
  Whatever the state, after a selection, a click on the close button and the timer,
  the new metrics are stored while no location is selected, and the render fails.
\<close>

lemma stale_completion_applied:
  "solarData (analyzeSolar_resume s (onClose (analyzeSolar_start la lo w))) =
     Some (solar_metrics s (random_values w (random_calls w))
                           (random_values w (Suc (random_calls w)))) \<and>
   isAnalyzing (analyzeSolar_resume s (onClose (analyzeSolar_start la lo w))) = False \<and>
   selectedLocation (analyzeSolar_resume s (onClose (analyzeSolar_start la lo w))) = None \<and>
   session_state_of (analyzeSolar_resume s (onClose (analyzeSolar_start la lo w))) =
     Inl TypeError"
  by (simp add: session_state_of_def analyzeSolar_resume_def onClose_def analyzeSolar_start_def
      Math_random_def Let_def)

text \<open>
  Claim C8: when the user selects a point and closes the results panel before the
  timer of \<open>analyzeSolar\<close> fires, the late completion must not be applied and the
  session must stay idle. The code does not keep to this. On a page that shows the
  results of an earlier analysis the user selects the point (51.5, -0.125) and closes
  the panel while the analysis is pending; when the timer fires \<open>analyzeSolar\<close> stores
  the new metrics although no location is selected any more, and the render of the
  results panel throws: the session is neither idle nor showing results.
\<close>

theorem stale_completion_failure:
  "session_state_of (resolved_world half_values) = Inr Resolved \<and>
   session_state_of
     (analyzeSolar_start (515 / 10) (- (125 / 1000)) (resolved_world half_values)) =
     Inr Analyzing \<and>
   session_state_of
     (onClose (analyzeSolar_start (515 / 10) (- (125 / 1000)) (resolved_world half_values))) =
     Inr Analyzing \<and>
   solarData (analyzeSolar_resume default_settings (onClose
      (analyzeSolar_start (515 / 10) (- (125 / 1000)) (resolved_world half_values)))) =
     Some (solar_metrics default_settings (1 / 2) (1 / 2)) \<and>
   selectedLocation (analyzeSolar_resume default_settings (onClose
      (analyzeSolar_start (515 / 10) (- (125 / 1000)) (resolved_world half_values)))) = None \<and>
   session_state_of (analyzeSolar_resume default_settings (onClose
      (analyzeSolar_start (515 / 10) (- (125 / 1000)) (resolved_world half_values)))) =
     Inl TypeError"
  by (simp add: session_state_of_def analyzeSolar_resume_def onClose_def analyzeSolar_start_def
      analyzeSolar_def resolved_world_def Math_random_def Let_def initial_world_def
      half_values_def)


section \<open>Blank queries (C9)\<close>

text \<open>
  Claim C9: for a query that is empty or consists of white space only, \<open>searchLocation\<close>
  does nothing: the whole state, including the location, the query, the searching
  flag, the metrics and the record of requests, is unchanged.
\<close>

theorem searchLocation_blank:
  assumes "list_all is_space (searchQuery w)"
  shows "searchLocation service w = w"
  using assms by (simp add: searchLocation_def trim_empty_iff)

theorem searchLocation_blank_witness:
  "list_all is_space (searchQuery ((initial_world half_values)\<lparr>searchQuery := ''  ''\<rparr>)) \<and>
   searchLocation (\<lambda>q. Fetch_Failed) ((initial_world half_values)\<lparr>searchQuery := ''  ''\<rparr>) =
     (initial_world half_values)\<lparr>searchQuery := ''  ''\<rparr>"
  using searchLocation_blank [of "(initial_world half_values)\<lparr>searchQuery := ''  ''\<rparr>" "\<lambda>q. Fetch_Failed"]
  by (simp add: is_space_def)

end
